theory Spec2Isabelle
  imports Complex_Main
begin

section \<open>Values\<close>

text \<open>
  The program is \<^verbatim>\<open>src/script.js\<close>: a meal log (\<^verbatim>\<open>dailyLog\<close>) with a calorie goal, filled
  from the answers of a remote analysis service.

  A value that \<^verbatim>\<open>JSON.parse\<close> or \<^verbatim>\<open>response.json()\<close> can return is a \<open>json\<close>. An object is
  the list of its own properties (a key is looked up from the front). The value
  \<^verbatim>\<open>undefined\<close>, which reading an absent property gives, is \<open>None\<close> of \<open>jsval\<close>.

  Numbers are real numbers: a finite double is taken as the number it denotes, and the
  rounding and the overflow of double arithmetic are not modelled. Strings are lists of
  code units below 256.
\<close>

datatype json =
    JNull
  | JBool bool
  | JNum real
  | JStr string
  | JArr "json list"
  | JObj "(string \<times> json) list"

type_synonym jsval = "json option"

text \<open>What the program can throw, by the place that throws it.\<close>

datatype error =
    NetworkError                \<comment> \<open>\<^verbatim>\<open>fetch\<close> rejects\<close>
  | ApiError string nat         \<comment> \<open>line 95: status text and status\<close>
  | RetriesExhausted            \<comment> \<open>line 99\<close>
  | BodyNotJson                 \<comment> \<open>\<^verbatim>\<open>response.json()\<close> rejects\<close>
  | UnexpectedStructure         \<comment> \<open>line 110\<close>
  | SyntaxError                 \<comment> \<open>\<^verbatim>\<open>JSON.parse\<close> throws\<close>
  | TypeError                   \<comment> \<open>a property of \<^verbatim>\<open>null\<close> or \<^verbatim>\<open>undefined\<close> is read\<close>

text \<open>Truthiness, as \<^verbatim>\<open>&&\<close>, \<^verbatim>\<open>||\<close>, \<^verbatim>\<open>!\<close> and \<^verbatim>\<open>if\<close> test it.\<close>

fun truthy :: "json \<Rightarrow> bool" where
  "truthy JNull = False"
| "truthy (JBool b) = b"
| "truthy (JNum x) = (x \<noteq> 0)"
| "truthy (JStr s) = (s \<noteq> [])"
| "truthy (JArr xs) = True"
| "truthy (JObj kvs) = True"

fun truthy_val :: "jsval \<Rightarrow> bool" where
  "truthy_val None = False"
| "truthy_val (Some v) = truthy v"

text \<open>
  \<^verbatim>\<open>v.k\<close> for the property names the program reads (\<^verbatim>\<open>meal_summary\<close>, \<^verbatim>\<open>food_items\<close>,
  \<^verbatim>\<open>total_calories\<close>, \<^verbatim>\<open>candidates\<close>, ...): none of them is a property of a string, an
  array, a number or a boolean, so only an object can have them.
\<close>

fun member :: "jsval \<Rightarrow> string \<Rightarrow> error + jsval" where
  "member None k = Inl TypeError"
| "member (Some JNull) k = Inl TypeError"
| "member (Some (JObj kvs)) k = Inr (map_of kvs k)"
| "member (Some v) k = Inr None"

text \<open>\<^verbatim>\<open>v?.k\<close>: \<^verbatim>\<open>undefined\<close> when \<^verbatim>\<open>v\<close> is \<^verbatim>\<open>null\<close> or \<^verbatim>\<open>undefined\<close>.\<close>

fun opt_member :: "jsval \<Rightarrow> string \<Rightarrow> jsval" where
  "opt_member (Some (JObj kvs)) k = map_of kvs k"
| "opt_member v k = None"

text \<open>\<^verbatim>\<open>v?.[0]\<close>: the first element of an array, the first character of a string, the
  property \<^verbatim>\<open>"0"\<close> of an object.\<close>

fun opt_index0 :: "jsval \<Rightarrow> jsval" where
  "opt_index0 (Some (JArr xs)) = (case xs of [] \<Rightarrow> None | x # _ \<Rightarrow> Some x)"
| "opt_index0 (Some (JStr s)) = (case s of [] \<Rightarrow> None | c # _ \<Rightarrow> Some (JStr [c]))"
| "opt_index0 (Some (JObj kvs)) = map_of kvs ''0''"
| "opt_index0 v = None"

definition bind_error :: "error + 'a \<Rightarrow> ('a \<Rightarrow> error + 'b) \<Rightarrow> error + 'b" where
  "bind_error r f = (case r of Inl e \<Rightarrow> Inl e | Inr x \<Rightarrow> f x)"

section \<open>Strings and \<^verbatim>\<open>parseInt\<close>\<close>

text \<open>The white space and line terminators of JavaScript below 256: TAB, LF, VT, FF, CR,
  SP, NBSP.\<close>

definition is_ws :: "char \<Rightarrow> bool" where
  "is_ws c = (of_char c \<in> {9::nat, 10, 11, 12, 13, 32, 160})"

definition trim :: "string \<Rightarrow> string" where
  "trim s = rev (dropWhile is_ws (rev (dropWhile is_ws s)))"

definition is_digit :: "char \<Rightarrow> bool" where
  "is_digit c = (48 \<le> (of_char c :: nat) \<and> (of_char c :: nat) \<le> 57)"

definition digit_val :: "char \<Rightarrow> nat" where
  "digit_val c = of_char c - 48"

definition decimal :: "string \<Rightarrow> nat" where
  "decimal ds = foldl (\<lambda>a c. 10 * a + digit_val c) 0 ds"

text \<open>
  \<^verbatim>\<open>parseInt(s, 10)\<close>: leading white space is skipped, one sign is read, then the longest
  run of decimal digits; what follows is ignored. With no digit the result is \<^verbatim>\<open>NaN\<close>,
  here \<open>None\<close>. The result here is the exact integer of the digits. The program holds a
  double, which is that integer as long as its magnitude is at most \<open>2 ^ 53\<close>; beyond,
  the double is rounded (and is \<^verbatim>\<open>Infinity\<close> for very long runs), which is not modelled.
\<close>

definition parseInt10 :: "string \<Rightarrow> int option" where
  "parseInt10 s =
     (let s1 = dropWhile is_ws s;
          neg = (case s1 of [] \<Rightarrow> False | c # _ \<Rightarrow> c = CHR ''-'');
          s2 = (case s1 of [] \<Rightarrow> [] | c # r \<Rightarrow> if c = CHR ''-'' \<or> c = CHR ''+'' then r else s1);
          ds = takeWhile is_digit s2
      in if ds = [] then None
         else Some (if neg then - int (decimal ds) else int (decimal ds)))"

text \<open>\<^verbatim>\<open>`${index}`\<close> for an array index: its decimal digits (line 144 writes it into
  \<^verbatim>\<open>data-index\<close>).\<close>

fun digits_of :: "nat \<Rightarrow> string" where
  "digits_of n =
     (if n < 10 then [char_of (48 + n)] else digits_of (n div 10) @ [char_of (48 + n mod 10)])"

declare digits_of.simps [simp del]

section \<open>The state\<close>

record meal =
  description :: string
  analysis :: json

record state =
  dailyLog :: "meal list"
  calorieGoal :: int

definition initial_state :: state where
  "initial_state = \<lparr>dailyLog = [], calorieGoal = 2000\<rparr>"

section \<open>The analysis request\<close>

text \<open>
  A response of the service: its status, its status text and what \<^verbatim>\<open>response.json()\<close>
  gives (\<open>None\<close> when the body is not JSON and the call rejects). \<^verbatim>\<open>response.ok\<close> is true
  for the statuses 200 to 299.
\<close>

record response =
  status :: nat
  statusText :: string
  json_body :: "json option"

definition ok :: "response \<Rightarrow> bool" where
  "ok r = (200 \<le> status r \<and> status r \<le> 299)"

datatype fetch_outcome = Rejected | Responded response

text \<open>
  What surrounds one call of \<^verbatim>\<open>getNutritionalInfo\<close>: the outcome of its \<open>k\<close>-th
  \<^verbatim>\<open>fetch\<close> (counted from 0) for the description sent, the value of its \<open>k\<close>-th
  \<^verbatim>\<open>Math.random()\<close>, and \<^verbatim>\<open>JSON.parse\<close> applied to the text payload (\<open>None\<close> when it
  throws).
\<close>

record world =
  fetch :: "nat \<Rightarrow> string \<Rightarrow> fetch_outcome"
  random :: "nat \<Rightarrow> real"
  JSON_parse :: "json \<Rightarrow> json option"

definition maxAttempts :: nat where
  "maxAttempts = 5"

text \<open>
  The loop of lines 77 to 97, on its variables \<^verbatim>\<open>attempt\<close> and \<^verbatim>\<open>response\<close>, with the
  number of \<^verbatim>\<open>fetch\<close> calls made and the delays waited so far. It ends with the value of
  \<^verbatim>\<open>response\<close> (on \<^verbatim>\<open>break\<close>, or when the condition fails) or with what was thrown.
\<close>

function retry_loop ::
  "world \<Rightarrow> string \<Rightarrow> nat \<Rightarrow> response option \<Rightarrow> nat \<Rightarrow> real list
     \<Rightarrow> (error + response option) \<times> nat \<times> real list" where
  "retry_loop w d attempt resp calls delays =
     (if attempt < maxAttempts then
        (case fetch w calls d of
           Rejected \<Rightarrow> (Inl NetworkError, calls + 1, delays)
         | Responded r \<Rightarrow>
             if ok r then (Inr (Some r), calls + 1, delays)
             else if status r = 429 \<or> status r \<ge> 500 then
               retry_loop w d (attempt + 1) (Some r) (calls + 1)
                 (delays @ [2 ^ attempt * 1000 + random w (length delays) * 1000])
             else (Inl (ApiError (statusText r) (status r)), calls + 1, delays))
      else (Inr resp, calls, delays))"
  by pat_completeness auto
termination
  by (relation "measure (\<lambda>(w, d, attempt, resp, calls, delays). maxAttempts - attempt)") auto

declare retry_loop.simps [simp del]

text \<open>Lines 98 to 111: the check after the loop, and the text payload of the answer.\<close>

definition extract_text :: "json \<Rightarrow> error + jsval" where
  "extract_text result =
     bind_error (member (Some result) ''candidates'') (\<lambda>cs.
       let candidate = opt_index0 cs in
       if truthy_val candidate then
         Inr (opt_member (opt_index0 (opt_member (opt_member candidate ''content'') ''parts''))
                ''text'')
       else Inr None)"

definition parse_response :: "world \<Rightarrow> response option \<Rightarrow> error + json" where
  "parse_response w resp =
     (case resp of
        None \<Rightarrow> Inl TypeError
      | Some r \<Rightarrow>
          if \<not> ok r then Inl RetriesExhausted
          else (case json_body r of
                  None \<Rightarrow> Inl BodyNotJson
                | Some result \<Rightarrow>
                    bind_error (extract_text result) (\<lambda>t.
                      case t of
                        None \<Rightarrow> Inl UnexpectedStructure
                      | Some txt \<Rightarrow>
                          if truthy txt then
                            (case JSON_parse w txt of
                               None \<Rightarrow> Inl SyntaxError
                             | Some v \<Rightarrow> Inr v)
                          else Inl UnexpectedStructure)))"

text \<open>The result of a call: what it returns or throws, the number of requests it made and
  the delays it waited, in milliseconds and in order.\<close>

record call_result =
  outcome :: "error + json"
  fetches :: nat
  delays :: "real list"

definition getNutritionalInfo :: "world \<Rightarrow> string \<Rightarrow> call_result" where
  "getNutritionalInfo w mealDescription =
     (case retry_loop w mealDescription 0 None 0 [] of
        (Inl e, n, ds) \<Rightarrow> \<lparr>outcome = Inl e, fetches = n, delays = ds\<rparr>
      | (Inr resp, n, ds) \<Rightarrow> \<lparr>outcome = parse_response w resp, fetches = n, delays = ds\<rparr>)"

section \<open>The handlers\<close>

text \<open>
  Each handler is modelled by what it does to \<^verbatim>\<open>dailyLog\<close> and \<^verbatim>\<open>calorieGoal\<close>, run to its
  end. Every handler writes the state before it calls \<^verbatim>\<open>updateUI\<close>, so what the rendering
  does (and whether it throws) does not change the state the handler leaves; the writes
  to the page are not part of the model.
\<close>

text \<open>The test of line 207, \<^verbatim>\<open>analysis && analysis.meal_summary && analysis.food_items\<close>.\<close>

definition member_truthy :: "json \<Rightarrow> string \<Rightarrow> bool" where
  "member_truthy v k = (case member (Some v) k of Inl e \<Rightarrow> False | Inr x \<Rightarrow> truthy_val x)"

definition accepted :: "json \<Rightarrow> bool" where
  "accepted a = (truthy a \<and> member_truthy a ''meal_summary'' \<and> member_truthy a ''food_items'')"

record log_result =
  after :: state
  requests :: nat
  waited :: "real list"

definition handleLogMeal :: "world \<Rightarrow> string \<Rightarrow> state \<Rightarrow> log_result" where
  "handleLogMeal w input st =
     (let description = trim input in
      if description = [] then \<lparr>after = st, requests = 0, waited = []\<rparr>
      else
        let r = getNutritionalInfo w description in
        \<lparr>after =
           (case outcome r of
              Inl e \<Rightarrow> st
            | Inr a \<Rightarrow>
                if accepted a
                then st\<lparr>dailyLog := dailyLog st @ [\<lparr>description = description, analysis = a\<rparr>]\<rparr>
                else st),
         requests = fetches r,
         waited = delays r\<rparr>)"

text \<open>Line 225: \<^verbatim>\<open>parseInt(event.target.value, 10) || 0\<close>. The goal stored is the one of
  the program when the number read has a magnitude of at most \<open>2 ^ 53\<close>.\<close>

definition handleGoalChange :: "string \<Rightarrow> state \<Rightarrow> state" where
  "handleGoalChange v st =
     st\<lparr>calorieGoal := (case parseInt10 v of None \<Rightarrow> 0 | Some n \<Rightarrow> if n \<noteq> 0 then n else 0)\<rparr>"

text \<open>Lines 230 to 235; the argument is the answer of \<^verbatim>\<open>confirm\<close>.\<close>

definition handleClearLog :: "bool \<Rightarrow> state \<Rightarrow> state" where
  "handleClearLog confirmed st = (if confirmed then st\<lparr>dailyLog := []\<rparr> else st)"

text \<open>
  \<^verbatim>\<open>xs.splice(start, 1)\<close>: \<^verbatim>\<open>NaN\<close> counts as 0, a negative start counts from the end, the
  start is clamped to the length, and at most one element is deleted.
\<close>

definition splice1 :: "int option \<Rightarrow> 'a list \<Rightarrow> 'a list" where
  "splice1 start xs =
     (let len = int (length xs);
          rel = (case start of None \<Rightarrow> 0 | Some i \<Rightarrow> i);
          actualStart = (if rel < 0 then max (len + rel) 0 else min rel len);
          deleteCount = min (max 1 0) (len - actualStart)
      in take (nat actualStart) xs @ drop (nat actualStart + nat deleteCount) xs)"

text \<open>Lines 237 to 241; the argument is \<^verbatim>\<open>event.target.dataset.index\<close>, the text
  that line 144 writes on every button.\<close>

definition handleRemoveMeal :: "string \<Rightarrow> state \<Rightarrow> state" where
  "handleRemoveMeal index st = st\<lparr>dailyLog := splice1 (parseInt10 index) (dailyLog st)\<rparr>"

section \<open>The dashboard\<close>

text \<open>
  An accumulator of the \<^verbatim>\<open>reduce\<close> is a number, or a string once \<^verbatim>\<open>+=\<close> has added a
  string, an array or an object to it (\<^verbatim>\<open>+\<close> then concatenates, and goes on doing so);
  the characters of that string are not modelled.
\<close>

datatype jsacc = ANum real | AStr

fun js_add :: "jsacc \<Rightarrow> json \<Rightarrow> jsacc" where
  "js_add (ANum a) (JNum x) = ANum (a + x)"
| "js_add (ANum a) (JBool b) = ANum (a + (if b then 1 else 0))"
| "js_add (ANum a) JNull = ANum a"
| "js_add (ANum a) v = AStr"
| "js_add AStr v = AStr"

text \<open>\<^verbatim>\<open>v || 0\<close>.\<close>

fun or_zero :: "jsval \<Rightarrow> json" where
  "or_zero None = JNum 0"
| "or_zero (Some v) = (if truthy v then v else JNum 0)"

record totals =
  calories :: jsacc
  protein :: jsacc
  carbs :: jsacc
  fat :: jsacc

text \<open>\<^verbatim>\<open>meal.analysis.meal_summary.k\<close>.\<close>

definition summary_field :: "meal \<Rightarrow> string \<Rightarrow> error + jsval" where
  "summary_field m k = bind_error (member (Some (analysis m)) ''meal_summary'') (\<lambda>ms. member ms k)"

text \<open>The callback of the \<^verbatim>\<open>reduce\<close>, lines 159 to 165.\<close>

definition reduce_step :: "totals \<Rightarrow> meal \<Rightarrow> error + totals" where
  "reduce_step acc m =
     bind_error (summary_field m ''total_calories'') (\<lambda>c.
     bind_error (summary_field m ''total_protein_g'') (\<lambda>p.
     bind_error (summary_field m ''total_carbs_g'') (\<lambda>cb.
     bind_error (summary_field m ''total_fat_g'') (\<lambda>f.
       Inr \<lparr>calories = js_add (calories acc) (or_zero c),
            protein = js_add (protein acc) (or_zero p),
            carbs = js_add (carbs acc) (or_zero cb),
            fat = js_add (fat acc) (or_zero f)\<rparr>))))"

fun reduce :: "totals \<Rightarrow> meal list \<Rightarrow> error + totals" where
  "reduce acc [] = Inr acc"
| "reduce acc (m # ms) = bind_error (reduce_step acc m) (\<lambda>acc'. reduce acc' ms)"

definition computeTotals :: "meal list \<Rightarrow> error + totals" where
  "computeTotals ms =
     reduce \<lparr>calories = ANum 0, protein = ANum 0, carbs = ANum 0, fat = ANum 0\<rparr> ms"

text \<open>Lines 173 and 177, for a numeric \<^verbatim>\<open>totals.calories\<close>: the width of the bar in percent,
  and whether the bar is red.\<close>

definition progressPercentage :: "real \<Rightarrow> int \<Rightarrow> real" where
  "progressPercentage cal goal = (if goal > 0 then min ((cal / of_int goal) * 100) 100 else 0)"

definition overGoal :: "real \<Rightarrow> int \<Rightarrow> bool" where
  "overGoal cal goal = (cal > of_int goal)"

record dashboard =
  shown :: totals
  bar :: "(real \<times> bool) option"

text \<open>\<^verbatim>\<open>updateDashboard\<close>; \<open>bar\<close> is \<open>None\<close> when \<^verbatim>\<open>totals.calories\<close> is a string, whose reading
  as a number is not modelled.\<close>

definition updateDashboard :: "state \<Rightarrow> error + dashboard" where
  "updateDashboard st =
     bind_error (computeTotals (dailyLog st)) (\<lambda>t.
       Inr \<lparr>shown = t,
            bar = (case calories t of
                     ANum c \<Rightarrow> Some (progressPercentage c (calorieGoal st), overGoal c (calorieGoal st))
                   | AStr \<Rightarrow> None)\<rparr>)"

section \<open>Sequences of events\<close>

datatype event =
    LogMeal world string
  | RemoveMeal string
  | ClearLog bool
  | GoalChange string

fun step :: "state \<Rightarrow> event \<Rightarrow> state" where
  "step st (LogMeal w input) = after (handleLogMeal w input st)"
| "step st (RemoveMeal index) = handleRemoveMeal index st"
| "step st (ClearLog confirmed) = handleClearLog confirmed st"
| "step st (GoalChange v) = handleGoalChange v st"

definition run :: "state \<Rightarrow> event list \<Rightarrow> state" where
  "run st evs = foldl step st evs"

section \<open>Notions used in the statements\<close>

text \<open>The statuses on which line 88 retries, and the delay of line 90 after the failed
  attempt \<open>i\<close>.\<close>

definition transient :: "response \<Rightarrow> bool" where
  "transient r = (status r = 429 \<or> status r \<ge> 500)"

definition backoff :: "world \<Rightarrow> nat \<Rightarrow> real" where
  "backoff w i = 2 ^ i * 1000 + random w i * 1000"

text \<open>Concrete inputs: the answer of the service around a text payload, a breakdown with
  no items, a response with a status and a body, and a world that answers with the given
  outcomes in order, draws 0.5 each time and parses every string payload to \<open>v\<close>.\<close>

definition envelope :: "json \<Rightarrow> json" where
  "envelope txt =
     JObj [(''candidates'',
            JArr [JObj [(''content'', JObj [(''parts'', JArr [JObj [(''text'', txt)]])])]])]"

definition breakdown :: "real \<Rightarrow> real \<Rightarrow> real \<Rightarrow> real \<Rightarrow> json" where
  "breakdown c p cb f =
     JObj [(''meal_summary'',
            JObj [(''total_calories'', JNum c), (''total_protein_g'', JNum p),
                  (''total_carbs_g'', JNum cb), (''total_fat_g'', JNum f)]),
           (''food_items'', JArr [])]"

definition reply :: "nat \<Rightarrow> json option \<Rightarrow> fetch_outcome" where
  "reply st b = Responded \<lparr>status = st, statusText = [], json_body = b\<rparr>"

definition world_of :: "fetch_outcome list \<Rightarrow> json \<Rightarrow> world" where
  "world_of rs v =
     \<lparr>fetch = (\<lambda>k d. if k < length rs then rs ! k else Rejected),
      random = (\<lambda>k. 1 / 2),
      JSON_parse = (\<lambda>t. case t of JStr s \<Rightarrow> Some v | _ \<Rightarrow> None)\<rparr>"

text \<open>A world whose first answer is a success carrying a payload that parses to \<open>v\<close>.\<close>

definition answering :: "json \<Rightarrow> world" where
  "answering v = world_of [reply 200 (Some (envelope (JStr ''{}'')))] v"

text \<open>What removing position \<open>i\<close> leaves: the entries before \<open>i\<close> stay, every later
  entry moves down by one position, and the list is one shorter.\<close>

definition shifted :: "nat \<Rightarrow> 'a list \<Rightarrow> 'a list" where
  "shifted i xs = map (\<lambda>j. if j < i then xs ! j else xs ! (j + 1)) [0..<length xs - 1]"

text \<open>Meals and states to compute on.\<close>

definition eggs :: meal where
  "eggs = \<lparr>description = ''2 eggs'', analysis = breakdown 140 12 1 10\<rparr>"

definition toast :: meal where
  "toast = \<lparr>description = ''toast'', analysis = breakdown 80 3 15 1\<rparr>"

definition rice :: meal where
  "rice = \<lparr>description = ''rice'', analysis = breakdown 200 4 45 0\<rparr>"

definition feast :: meal where
  "feast = \<lparr>description = ''feast'', analysis = breakdown 2500 100 300 90\<rparr>"

definition sparse :: meal where
  "sparse = \<lparr>description = ''tea'',
     analysis = JObj [(''meal_summary'', JObj [(''total_calories'', JNum 2), (''total_fat_g'', JNull)]),
                      (''food_items'', JArr [])]\<rparr>"

definition logged :: "meal list \<Rightarrow> state" where
  "logged ms = \<lparr>dailyLog = ms, calorieGoal = 2000\<rparr>"

definition session :: "event list" where
  "session =
     [LogMeal (answering (breakdown 140 12 1 10)) ''2 eggs'',
      LogMeal (answering (breakdown 80 3 15 1)) '' toast '',
      LogMeal (answering (breakdown 200 4 45 0)) ''rice'',
      RemoveMeal ''1'']"

definition null_summary :: json where
  "null_summary = JObj [(''meal_summary'', JNull), (''food_items'', JArr [])]"

text \<open>
  The four fields that the \<^verbatim>\<open>reduce\<close> reads. A summary is numeric when all four are
  numbers; it is numeric or missing when each is a number or is not truthy (absent,
  \<^verbatim>\<open>null\<close>, \<^verbatim>\<open>false\<close>, \<^verbatim>\<open>0\<close>, the empty string). The contribution of a field is its number,
  and 0 when it is not a number; \<open>field_sums\<close> is the field-wise sum of the contributions
  over a list of meals.
\<close>

definition is_num :: "jsval \<Rightarrow> bool" where
  "is_num v = (case v of Some (JNum x) \<Rightarrow> True | _ \<Rightarrow> False)"

definition summary_keys :: "string list" where
  "summary_keys = [''total_calories'', ''total_protein_g'', ''total_carbs_g'', ''total_fat_g'']"

definition numeric_summary :: "meal \<Rightarrow> bool" where
  "numeric_summary m =
     (\<forall>k\<in>set summary_keys. case summary_field m k of Inl e \<Rightarrow> False | Inr v \<Rightarrow> is_num v)"

definition numeric_or_missing :: "meal \<Rightarrow> bool" where
  "numeric_or_missing m =
     (\<forall>k\<in>set summary_keys.
        case summary_field m k of Inl e \<Rightarrow> False | Inr v \<Rightarrow> is_num v \<or> \<not> truthy_val v)"

definition contribution :: "meal \<Rightarrow> string \<Rightarrow> real" where
  "contribution m k = (case summary_field m k of Inr (Some (JNum x)) \<Rightarrow> x | _ \<Rightarrow> 0)"

definition field_sums :: "meal list \<Rightarrow> totals" where
  "field_sums ms =
     \<lparr>calories = ANum (\<Sum>m\<leftarrow>ms. contribution m ''total_calories''),
      protein = ANum (\<Sum>m\<leftarrow>ms. contribution m ''total_protein_g''),
      carbs = ANum (\<Sum>m\<leftarrow>ms. contribution m ''total_carbs_g''),
      fat = ANum (\<Sum>m\<leftarrow>ms. contribution m ''total_fat_g'')\<rparr>"

text \<open>An object has a field when the key is among its own properties, whatever the value.\<close>

definition has_field :: "json \<Rightarrow> string \<Rightarrow> bool" where
  "has_field a k = (case a of JObj kvs \<Rightarrow> map_of kvs k \<noteq> None | _ \<Rightarrow> False)"

section \<open>Properties of the analysis request\<close>

lemma transient_not_ok: "transient r \<Longrightarrow> \<not> ok r"
  by (auto simp: transient_def ok_def)

lemma retry_loop_transient:
  assumes "attempt < maxAttempts" "fetch w calls d = Responded r" "transient r"
  shows "retry_loop w d attempt resp calls ds =
           retry_loop w d (attempt + 1) (Some r) (calls + 1)
             (ds @ [2 ^ attempt * 1000 + random w (length ds) * 1000])"
  using assms transient_not_ok [of r]
  by (subst retry_loop.simps) (simp add: transient_def)


lemma retry_loop_terminal:
  assumes "attempt < maxAttempts" "fetch w calls d = Responded r" "\<not> ok r" "\<not> transient r"
  shows "retry_loop w d attempt resp calls ds = (Inl (ApiError (statusText r) (status r)), calls + 1, ds)"
  using assms by (subst retry_loop.simps) (simp add: transient_def)

lemma retry_loop_exit:
  assumes "\<not> attempt < maxAttempts"
  shows "retry_loop w d attempt resp calls ds = (Inr resp, calls, ds)"
  using assms by (subst retry_loop.simps) simp

lemma retry_loop_prefix:
  assumes "k \<le> maxAttempts"
    and "\<forall>i<k. fetch w i d = Responded (rs i) \<and> transient (rs i)"
    and "a \<le> k" and "length ds = a"
  shows "retry_loop w d a resp a ds =
           retry_loop w d k (if a < k then Some (rs (k - 1)) else resp) k
             (ds @ map (backoff w) [a..<k])"
  using assms(3,4)
proof (induction "k - a" arbitrary: a ds resp)
  case 0
  then show ?case by simp
next
  case (Suc n)
  then have lt: "a < k" by simp
  with assms(1) have am: "a < maxAttempts" by simp
  from lt assms(2) have f: "fetch w a d = Responded (rs a)" and t: "transient (rs a)" by auto
  have step: "retry_loop w d a resp a ds =
      retry_loop w d (a + 1) (Some (rs a)) (a + 1) (ds @ [backoff w a])"
    using retry_loop_transient [OF am f t, of resp ds] Suc.prems by (simp add: backoff_def)
  have n: "n = k - (a + 1)" using Suc.hyps by simp
  have ih: "retry_loop w d (a + 1) (Some (rs a)) (a + 1) (ds @ [backoff w a]) =
      retry_loop w d k (if a + 1 < k then Some (rs (k - 1)) else Some (rs a)) k
        ((ds @ [backoff w a]) @ map (backoff w) [a + 1..<k])"
    using Suc.hyps(1) [OF n, of "ds @ [backoff w a]" "Some (rs a)"] lt Suc.prems by simp
  have same: "(if a + 1 < k then Some (rs (k - 1)) else Some (rs a)) = Some (rs (k - 1))"
  proof (cases "a + 1 < k")
    case True
    then show ?thesis by simp
  next
    case False
    with lt have "k = a + 1" by simp
    then show ?thesis by simp
  qed
  have l: "[a..<k] = a # [a + 1..<k]" using lt by (simp add: upt_conv_Cons)
  show ?case using step ih same l lt by simp
qed


lemma retry_loop_from_start:
  assumes "k \<le> maxAttempts" and "0 < k"
    and "\<forall>i<k. fetch w i d = Responded (rs i) \<and> transient (rs i)"
  shows "retry_loop w d 0 None 0 [] =
           retry_loop w d k (Some (rs (k - 1))) k (map (backoff w) [0..<k])"
  using retry_loop_prefix [OF assms(1) assms(3), of 0 "[]" None] assms(2) by simp

text \<open>
  C2. When the first five responses are all transient failures (429 or a status from 500
  on, as five times 503), the call makes exactly 5 requests and throws the error of line
  99. It waits after every failed attempt, the fifth included: 5 delays, the last of
  16000 ms plus jitter, where the claim has 4 and none after the final attempt.
\<close>

theorem all_transient_exhausts:
  assumes "\<forall>i<5. fetch w i d = Responded (rs i) \<and> transient (rs i)"
  shows "getNutritionalInfo w d =
           \<lparr>outcome = Inl RetriesExhausted, fetches = 5,
            delays = [backoff w 0, backoff w 1, backoff w 2, backoff w 3, backoff w 4]\<rparr>"
proof -
  have m: "(5::nat) \<le> maxAttempts" by (simp add: maxAttempts_def)
  have "retry_loop w d 0 None 0 [] =
      retry_loop w d 5 (Some (rs (5 - 1))) 5 (map (backoff w) [0..<5])"
    using retry_loop_from_start [OF m _ assms] by simp
  also have "\<dots> = (Inr (Some (rs 4)), 5, map (backoff w) [0..<5])"
    by (simp add: retry_loop_exit maxAttempts_def)
  finally have loop: "retry_loop w d 0 None 0 [] = (Inr (Some (rs 4)), 5, map (backoff w) [0..<5])" .
  have "transient (rs 4)" using assms by simp
  then have p: "parse_response w (Some (rs 4)) = Inl RetriesExhausted"
    by (simp add: parse_response_def transient_not_ok)
  have u: "[0..<5] = [0, 1, 2, 3, 4::nat]" by (simp add: upt_rec)
  show ?thesis by (simp add: getNutritionalInfo_def loop p u)
qed

theorem all_transient_exhausts_witness:
  "getNutritionalInfo (world_of (replicate 5 (reply 503 None)) JNull) ''2 eggs'' =
     \<lparr>outcome = Inl RetriesExhausted, fetches = 5, delays = [1500, 2500, 4500, 8500, 16500]\<rparr>"
  using all_transient_exhausts [of "world_of (replicate 5 (reply 503 None)) JNull" "''2 eggs''"
      "\<lambda>i. \<lparr>status = 503, statusText = [], json_body = None\<rparr>"]
  by (simp add: world_of_def reply_def transient_def backoff_def)



text \<open>
  C5. A response that is not a success and whose status is neither 429 nor 500 or more
  ends the call at once with the error of line 95: no delay follows it and no further
  request is made. After \<open>k\<close> transient responses the call has made \<open>k + 1\<close> requests
  and waited \<open>k\<close> times; on the first attempt (\<open>k = 0\<close>) it has made one request and
  waited not at all.
\<close>

theorem terminal_status_fails_at_once:
  assumes "k < maxAttempts"
    and "\<forall>i<k. fetch w i d = Responded (rs i) \<and> transient (rs i)"
    and "fetch w k d = Responded r" "\<not> ok r" "status r \<noteq> 429" "status r < 500"
  shows "getNutritionalInfo w d =
           \<lparr>outcome = Inl (ApiError (statusText r) (status r)), fetches = k + 1,
            delays = map (backoff w) [0..<k]\<rparr>"
proof -
  have nt: "\<not> transient r" using assms(5,6) by (simp add: transient_def)
  have kl: "k \<le> maxAttempts" using assms(1) by simp
  have "retry_loop w d 0 None 0 [] =
      retry_loop w d k (if 0 < k then Some (rs (k - 1)) else None) k ([] @ map (backoff w) [0..<k])"
    using retry_loop_prefix [OF kl assms(2), of 0 "[]" None] by simp
  also have "\<dots> = (Inl (ApiError (statusText r) (status r)), k + 1, [] @ map (backoff w) [0..<k])"
    using assms(1,3,4) nt by (intro retry_loop_terminal)
  finally show ?thesis by (simp add: getNutritionalInfo_def)
qed

theorem terminal_status_fails_at_once_witness:
  "getNutritionalInfo (world_of [reply 404 None] JNull) ''2 eggs'' =
     \<lparr>outcome = Inl (ApiError [] 404), fetches = 1, delays = []\<rparr>"
  using terminal_status_fails_at_once [of 0 "world_of [reply 404 None] JNull" "''2 eggs''"
      "\<lambda>i. \<lparr>status = 404, statusText = [], json_body = None\<rparr>"
      "\<lparr>status = 404, statusText = [], json_body = None\<rparr>"]
  by (simp add: world_of_def reply_def maxAttempts_def ok_def)

section \<open>Properties of \<^verbatim>\<open>parseInt\<close> and \<^verbatim>\<open>splice\<close>\<close>

lemma is_digit_char_of: "(n::nat) < 10 \<Longrightarrow> is_digit (char_of (48 + n))"
  by (simp add: is_digit_def)

lemma digit_val_char_of: "(n::nat) < 10 \<Longrightarrow> digit_val (char_of (48 + n)) = n"
  by (simp add: digit_val_def)

lemma digits_of_all_digits: "\<forall>c\<in>set (digits_of n). is_digit c"
proof (induction n rule: digits_of.induct)
  case (1 n)
  show ?case
  proof (cases "n < 10")
    case True
    then show ?thesis by (subst digits_of.simps) (simp add: is_digit_char_of)
  next
    case False
    then show ?thesis using 1 by (subst digits_of.simps) (simp add: is_digit_char_of)
  qed
qed

lemma digits_of_not_empty: "digits_of n \<noteq> []"
  by (subst digits_of.simps) simp

lemma decimal_snoc: "decimal (ds @ [c]) = 10 * decimal ds + digit_val c"
  by (simp add: decimal_def)

lemma decimal_digits_of: "decimal (digits_of n) = n"
proof (induction n rule: digits_of.induct)
  case (1 n)
  show ?case
  proof (cases "n < 10")
    case True
    then show ?thesis by (subst digits_of.simps) (simp add: decimal_def digit_val_char_of)
  next
    case False
    then have "decimal (digits_of (n div 10)) = n div 10" using 1 by simp
    with False show ?thesis
      by (subst digits_of.simps) (simp add: decimal_snoc digit_val_char_of)
  qed
qed

lemma digit_not_ws: "is_digit c \<Longrightarrow> \<not> is_ws c"
  by (auto simp: is_digit_def is_ws_def)

lemma digit_not_sign: "is_digit c \<Longrightarrow> c \<noteq> CHR ''-'' \<and> c \<noteq> CHR ''+''"
  by (auto simp: is_digit_def)

lemma sign_not_ws: "\<not> is_ws CHR ''-''"
  by (simp add: is_ws_def)

lemma takeWhile_digits_of: "takeWhile is_digit (digits_of n) = digits_of n"
  using digits_of_all_digits [of n] by (simp add: takeWhile_eq_all_conv)

lemma parseInt10_digits_of: "parseInt10 (digits_of n) = Some (int n)"
proof -
  obtain c r where cr: "digits_of n = c # r"
    using digits_of_not_empty [of n] by (cases "digits_of n") auto
  then have d: "is_digit c" using digits_of_all_digits [of n] by simp
  have tw: "takeWhile is_digit (c # r) = c # r" using takeWhile_digits_of [of n] cr by simp
  have dec: "decimal (c # r) = n" using decimal_digits_of [of n] cr by simp
  show ?thesis
    unfolding parseInt10_def Let_def cr
    using digit_not_ws [OF d] digit_not_sign [OF d] tw dec by simp
qed

lemma parseInt10_minus_digits_of: "parseInt10 (CHR ''-'' # digits_of n) = Some (- int n)"
  unfolding parseInt10_def Let_def
  by (simp add: sign_not_ws takeWhile_digits_of digits_of_not_empty decimal_digits_of)

lemma parseInt10_no_digit:
  assumes "\<forall>c\<in>set s. \<not> is_digit c"
  shows "parseInt10 s = None"
proof -
  have sub: "set (dropWhile is_ws s) \<subseteq> set s" by (rule set_dropWhileD [THEN subsetI])
  have tw: "takeWhile is_digit xs = []" if "set xs \<subseteq> set s" for xs
    using that assms by (cases xs) auto
  show ?thesis
  proof (cases "dropWhile is_ws s")
    case Nil
    show ?thesis unfolding parseInt10_def Let_def Nil by simp
  next
    case (Cons c r)
    then have "set r \<subseteq> set s" and "set (c # r) \<subseteq> set s" using sub by auto
    then have "takeWhile is_digit r = []" and "takeWhile is_digit (c # r) = []"
      using tw by blast+
    then show ?thesis unfolding parseInt10_def Let_def Cons by simp
  qed
qed

lemma splice1_cases:
  "splice1 start xs =
     (let i = (case start of None \<Rightarrow> 0 | Some i \<Rightarrow> i) in
      if int (length xs) \<le> i then xs
      else if 0 \<le> i then shifted (nat i) xs
      else shifted (length xs - nat (- i)) xs)"
proof -
  let ?n = "length xs"
  have drop1: "shifted i xs = take i xs @ drop (i + 1) xs" if "i < ?n" for i
  proof (rule nth_equalityI)
    show "length (shifted i xs) = length (take i xs @ drop (i + 1) xs)"
      using that by (simp add: shifted_def)
  next
    fix j assume "j < length (shifted i xs)"
    then have j: "j < ?n - 1" by (simp add: shifted_def)
    then show "shifted i xs ! j = (take i xs @ drop (i + 1) xs) ! j"
      using that by (auto simp: shifted_def nth_append)
  qed
  show ?thesis
  proof (cases start)
    case None
    show ?thesis
    proof (cases "xs = []")
      case True
      then show ?thesis using None by (simp add: splice1_def shifted_def)
    next
      case False
      then have "min 1 (int ?n) = 1" by (cases xs) auto
      with False show ?thesis using None drop1 [of 0] by (simp add: splice1_def Let_def)
    qed
  next
    case (Some i)
    consider "int ?n \<le> i" | "0 \<le> i" "i < int ?n" | "i < 0" "- i \<le> int ?n" | "i < 0" "int ?n < - i"
      by linarith
    then show ?thesis
    proof cases
      case 1
      then show ?thesis using Some by (simp add: splice1_def Let_def)
    next
      case 2
      then have "nat i < ?n" by simp
      from drop1 [OF this] 2 show ?thesis using Some
        by (simp add: splice1_def Let_def min_def)
    next
      case 3
      then have lt: "?n - nat (- i) < ?n" by linarith
      have eq: "nat (int ?n + i) = ?n - nat (- i)" using 3 by linarith
      from drop1 [OF lt] 3 show ?thesis using Some
        by (simp add: splice1_def Let_def max_def eq)
    next
      case 4
      then have z: "?n - nat (- i) = 0" by linarith
      show ?thesis
      proof (cases "xs = []")
        case True
        then show ?thesis using Some 4 by (simp add: splice1_def shifted_def)
      next
        case False
        then have "min 1 (int ?n) = 1" by (cases xs) auto
        with drop1 [of 0] False 4 show ?thesis using Some
          by (simp add: splice1_def Let_def max_def z)
      qed
    qed
  qed
qed

lemma set_splice1: "set (splice1 start xs) \<subseteq> set xs"
proof -
  have "set (take i xs @ drop j xs) \<subseteq> set xs" for i j
    using set_take_subset [of i xs] set_drop_subset [of j xs] by auto
  then show ?thesis by (simp add: splice1_def Let_def)
qed

section \<open>Properties of the ledger\<close>

lemma field_adds:
  assumes "case summary_field m k of Inl e \<Rightarrow> False | Inr v \<Rightarrow> is_num v \<or> \<not> truthy_val v"
  shows "\<exists>v. summary_field m k = Inr v \<and> js_add (ANum a) (or_zero v) = ANum (a + contribution m k)"
proof (cases "summary_field m k")
  case (Inl e)
  with assms show ?thesis by simp
next
  case (Inr v)
  with assms have pv: "is_num v \<or> \<not> truthy_val v" by simp
  have "js_add (ANum a) (or_zero v) = ANum (a + contribution m k)"
  proof (cases v)
    case None
    then show ?thesis using Inr by (simp add: contribution_def)
  next
    case (Some j)
    then show ?thesis using Inr pv by (cases j) (auto simp: contribution_def is_num_def)
  qed
  with Inr show ?thesis by simp
qed

lemma reduce_step_adds:
  assumes "numeric_or_missing m"
  shows "reduce_step \<lparr>calories = ANum a, protein = ANum b, carbs = ANum c, fat = ANum d\<rparr> m =
           Inr \<lparr>calories = ANum (a + contribution m ''total_calories''),
                protein = ANum (b + contribution m ''total_protein_g''),
                carbs = ANum (c + contribution m ''total_carbs_g''),
                fat = ANum (d + contribution m ''total_fat_g'')\<rparr>"
proof -
  have h: "case summary_field m k of Inl e \<Rightarrow> False | Inr v \<Rightarrow> is_num v \<or> \<not> truthy_val v"
    if "k \<in> set summary_keys" for k
    using assms that by (simp add: numeric_or_missing_def)
  obtain v1 where v1: "summary_field m ''total_calories'' = Inr v1"
      "js_add (ANum a) (or_zero v1) = ANum (a + contribution m ''total_calories'')"
    using field_adds [OF h, of "''total_calories''" a] by (auto simp: summary_keys_def)
  obtain v2 where v2: "summary_field m ''total_protein_g'' = Inr v2"
      "js_add (ANum b) (or_zero v2) = ANum (b + contribution m ''total_protein_g'')"
    using field_adds [OF h, of "''total_protein_g''" b] by (auto simp: summary_keys_def)
  obtain v3 where v3: "summary_field m ''total_carbs_g'' = Inr v3"
      "js_add (ANum c) (or_zero v3) = ANum (c + contribution m ''total_carbs_g'')"
    using field_adds [OF h, of "''total_carbs_g''" c] by (auto simp: summary_keys_def)
  obtain v4 where v4: "summary_field m ''total_fat_g'' = Inr v4"
      "js_add (ANum d) (or_zero v4) = ANum (d + contribution m ''total_fat_g'')"
    using field_adds [OF h, of "''total_fat_g''" d] by (auto simp: summary_keys_def)
  show ?thesis
    unfolding reduce_step_def by (simp add: bind_error_def v1 v2 v3 v4)
qed

lemma reduce_adds:
  assumes "\<forall>m\<in>set ms. numeric_or_missing m"
  shows "reduce \<lparr>calories = ANum a, protein = ANum b, carbs = ANum c, fat = ANum d\<rparr> ms =
           Inr \<lparr>calories = ANum (a + (\<Sum>m\<leftarrow>ms. contribution m ''total_calories'')),
                protein = ANum (b + (\<Sum>m\<leftarrow>ms. contribution m ''total_protein_g'')),
                carbs = ANum (c + (\<Sum>m\<leftarrow>ms. contribution m ''total_carbs_g'')),
                fat = ANum (d + (\<Sum>m\<leftarrow>ms. contribution m ''total_fat_g''))\<rparr>"
  using assms
proof (induction ms arbitrary: a b c d)
  case Nil
  then show ?case by simp
next
  case (Cons m ms)
  then have m: "numeric_or_missing m" and ms: "\<forall>x\<in>set ms. numeric_or_missing x" by simp_all
  show ?case
    by (simp add: reduce_step_adds [OF m] bind_error_def Cons.IH [OF ms] add.assoc)
qed

lemma computeTotals_sums:
  assumes "\<forall>m\<in>set ms. numeric_or_missing m"
  shows "computeTotals ms = Inr (field_sums ms)"
  using reduce_adds [OF assms, of 0 0 0 0] by (simp add: computeTotals_def field_sums_def)

lemma numeric_summary_weaker: "numeric_summary m \<Longrightarrow> numeric_or_missing m"
  by (auto simp: numeric_summary_def numeric_or_missing_def split: sum.splits)

lemma accepted_iff:
  "accepted a \<longleftrightarrow>
     (\<exists>kvs s f. a = JObj kvs \<and> map_of kvs ''meal_summary'' = Some s \<and> truthy s \<and>
        map_of kvs ''food_items'' = Some f \<and> truthy f)"
proof (cases a)
  case (JObj kvs)
  show ?thesis
  proof (cases "map_of kvs ''meal_summary''")
    case None
    then show ?thesis using JObj by (simp add: accepted_def member_truthy_def)
  next
    case s: (Some s)
    show ?thesis
    proof (cases "map_of kvs ''food_items''")
      case None
      then show ?thesis using JObj by (simp add: accepted_def member_truthy_def)
    next
      case (Some f)
      then show ?thesis using JObj s by (simp add: accepted_def member_truthy_def)
    qed
  qed
qed (simp_all add: accepted_def member_truthy_def)

lemma accepted_summary_field:
  assumes "accepted (analysis m)"
  shows "\<exists>v. summary_field m k = Inr v"
proof -
  from assms obtain kvs s where a: "analysis m = JObj kvs"
      and s: "map_of kvs ''meal_summary'' = Some s" "truthy s"
    unfolding accepted_iff by blast
  from s(2) show ?thesis
    by (cases s) (simp_all add: summary_field_def bind_error_def a s(1))
qed

lemma accepted_reduce_step:
  assumes "accepted (analysis m)"
  shows "\<exists>t. reduce_step acc m = Inr t"
proof -
  obtain v1 v2 v3 v4 where "summary_field m ''total_calories'' = Inr v1"
      "summary_field m ''total_protein_g'' = Inr v2"
      "summary_field m ''total_carbs_g'' = Inr v3"
      "summary_field m ''total_fat_g'' = Inr v4"
    using accepted_summary_field [OF assms] by meson
  then show ?thesis by (simp add: reduce_step_def bind_error_def)
qed

lemma accepted_reduce:
  assumes "\<forall>m\<in>set ms. accepted (analysis m)"
  shows "\<exists>t. reduce acc ms = Inr t"
  using assms
proof (induction ms arbitrary: acc)
  case Nil
  then show ?case by simp
next
  case (Cons m ms)
  then obtain t where t: "reduce_step acc m = Inr t"
    using accepted_reduce_step [of m acc] by auto
  from Cons obtain t' where "reduce t ms = Inr t'" by fastforce
  with t show ?case by (simp add: bind_error_def)
qed

lemma handleLogMeal_log:
  "dailyLog (after (handleLogMeal w input st)) = dailyLog st \<or>
   (\<exists>a. accepted a \<and> trim input \<noteq> [] \<and> outcome (getNutritionalInfo w (trim input)) = Inr a \<and>
      dailyLog (after (handleLogMeal w input st)) =
        dailyLog st @ [\<lparr>description = trim input, analysis = a\<rparr>])"
  by (auto simp: handleLogMeal_def Let_def split: sum.splits)

lemma step_accepted:
  assumes "\<forall>m\<in>set (dailyLog st). accepted (analysis m)"
  shows "\<forall>m\<in>set (dailyLog (step st e)). accepted (analysis m)"
proof (cases e)
  case (LogMeal w input)
  then show ?thesis using assms handleLogMeal_log [of w input st] by auto
next
  case (RemoveMeal index)
  then show ?thesis using assms set_splice1 [of "parseInt10 index" "dailyLog st"]
    by (auto simp: handleRemoveMeal_def)
next
  case (ClearLog confirmed)
  then show ?thesis using assms by (simp add: handleClearLog_def)
next
  case (GoalChange v)
  then show ?thesis using assms by (simp add: handleGoalChange_def)
qed

lemma run_accepted:
  assumes "\<forall>m\<in>set (dailyLog st). accepted (analysis m)"
  shows "\<forall>m\<in>set (dailyLog (run st evs)). accepted (analysis m)"
  using assms unfolding run_def
proof (induction evs arbitrary: st)
  case Nil
  then show ?case by simp
next
  case (Cons e evs)
  from Cons.IH [OF step_accepted [OF Cons.prems]] show ?case by simp
qed

lemma answering_returns:
  "getNutritionalInfo (answering v) d = \<lparr>outcome = Inr v, fetches = 1, delays = []\<rparr>"
  by (simp add: getNutritionalInfo_def retry_loop.simps parse_response_def extract_text_def
      bind_error_def answering_def world_of_def reply_def envelope_def maxAttempts_def ok_def)

lemma accepted_breakdown: "accepted (breakdown c p cb f)"
  by (simp add: accepted_def member_truthy_def breakdown_def)

lemma numeric_breakdown: "numeric_summary \<lparr>description = d, analysis = breakdown c p cb f\<rparr>"
  by (simp add: numeric_summary_def summary_keys_def summary_field_def bind_error_def
      breakdown_def is_num_def)

lemma contribution_breakdown:
  "contribution \<lparr>description = d, analysis = breakdown c p cb f\<rparr> ''total_calories'' = c"
  "contribution \<lparr>description = d, analysis = breakdown c p cb f\<rparr> ''total_protein_g'' = p"
  "contribution \<lparr>description = d, analysis = breakdown c p cb f\<rparr> ''total_carbs_g'' = cb"
  "contribution \<lparr>description = d, analysis = breakdown c p cb f\<rparr> ''total_fat_g'' = f"
  by (simp_all add: contribution_def summary_field_def bind_error_def breakdown_def)

lemma session_log: "dailyLog (run initial_state session) = [eggs, rice]"
  by (simp add: run_def session_def handleLogMeal_def answering_returns accepted_breakdown
      handleRemoveMeal_def parseInt10_def splice1_def trim_def is_ws_def is_digit_def
      decimal_def digit_val_def initial_state_def eggs_def rice_def Let_def)

text \<open>
  C1. After every sequence of events (meals logged through the handler, removals, clears,
  goal changes) from the initial state, \<open>computeTotals\<close> returns totals and does not
  throw; and from any state, when the summaries of the meals now in the log are numeric,
  the totals are exactly the field-wise sums of calories, protein, carbs and fat over
  those meals: a meal that was removed or cleared contributes nothing.
\<close>

theorem totals_follow_the_log:
  "(\<exists>t. computeTotals (dailyLog (run initial_state evs)) = Inr t) \<and>
   ((\<forall>m\<in>set (dailyLog (run st evs)). numeric_summary m) \<longrightarrow>
      computeTotals (dailyLog (run st evs)) = Inr (field_sums (dailyLog (run st evs))))"
proof -
  have "\<forall>m\<in>set (dailyLog (run initial_state evs)). accepted (analysis m)"
    by (rule run_accepted) (simp add: initial_state_def)
  then have a: "\<exists>t. computeTotals (dailyLog (run initial_state evs)) = Inr t"
    unfolding computeTotals_def by (rule accepted_reduce)
  have b: "computeTotals (dailyLog (run st evs)) = Inr (field_sums (dailyLog (run st evs)))"
    if "\<forall>m\<in>set (dailyLog (run st evs)). numeric_summary m"
    using that by (intro computeTotals_sums) (blast intro: numeric_summary_weaker)
  from a b show ?thesis by blast
qed

theorem totals_follow_the_log_witness:
  "computeTotals (dailyLog (run initial_state session)) =
     Inr \<lparr>calories = ANum 340, protein = ANum 16, carbs = ANum 46, fat = ANum 10\<rparr>"
  using totals_follow_the_log [of session initial_state]
  by (simp add: session_log eggs_def rice_def numeric_breakdown field_sums_def
      contribution_breakdown)

text \<open>
  C3, as stated, fails: the handler has no error. The index \<open>-1\<close> is outside the range of
  a log of two meals, and the handler removes the last meal.
\<close>

theorem remove_meal_counterexample:
  "parseInt10 ''-1'' = Some (- 1) \<and>
   dailyLog (logged [eggs, toast]) = [eggs, toast] \<and>
   dailyLog (handleRemoveMeal ''-1'' (logged [eggs, toast])) = [eggs]"
  by (simp add: handleRemoveMeal_def logged_def parseInt10_def splice1_def is_ws_def is_digit_def
      decimal_def digit_val_def)

text \<open>
  C3, amended. Removing never fails. For an index \<open>n\<close> from the length on, the log is
  unchanged; for an index \<open>n\<close> below the length, the meal at \<open>n\<close> is removed and every
  later entry moves down one position, in order. A negative index \<open>-n\<close> counts from the
  end: the meal at position length minus \<open>n\<close> is removed (the first meal when \<open>n\<close>
  exceeds the length). The goal is unchanged.
\<close>

theorem remove_meal_splices:
  "dailyLog (handleRemoveMeal (digits_of n) st) =
     (if n < length (dailyLog st) then shifted n (dailyLog st) else dailyLog st) \<and>
   dailyLog (handleRemoveMeal (CHR ''-'' # digits_of n) st) =
     (if n = 0 then shifted 0 (dailyLog st) else shifted (length (dailyLog st) - n) (dailyLog st)) \<and>
   calorieGoal (handleRemoveMeal index st) = calorieGoal st"
proof -
  have a: "dailyLog (handleRemoveMeal (digits_of n) st) =
      (if n < length (dailyLog st) then shifted n (dailyLog st) else dailyLog st)"
    by (simp add: handleRemoveMeal_def parseInt10_digits_of splice1_cases)
  have e: "shifted 0 [] = ([] :: meal list)" by (simp add: shifted_def)
  have b: "dailyLog (handleRemoveMeal (CHR ''-'' # digits_of n) st) =
      (if n = 0 then shifted 0 (dailyLog st) else shifted (length (dailyLog st) - n) (dailyLog st))"
    by (cases "n = 0") (auto simp: handleRemoveMeal_def parseInt10_minus_digits_of splice1_cases e)
  have c: "calorieGoal (handleRemoveMeal index st) = calorieGoal st"
    by (simp add: handleRemoveMeal_def)
  from a b c show ?thesis by simp
qed

theorem remove_meal_splices_witness:
  "dailyLog (handleRemoveMeal ''2'' (logged [eggs, toast, rice])) = [eggs, toast] \<and>
   dailyLog (handleRemoveMeal ''3'' (logged [eggs, toast, rice])) = [eggs, toast, rice] \<and>
   dailyLog (handleRemoveMeal ''-2'' (logged [eggs, toast, rice])) = [eggs, rice]"
proof -
  have d: "digits_of 2 = ''2''" "digits_of 3 = ''3''" by code_simp+
  show ?thesis
    using remove_meal_splices [of 2 "logged [eggs, toast, rice]" "''2''"]
      remove_meal_splices [of 3 "logged [eggs, toast, rice]" "''3''"]
    by (simp add: d logged_def shifted_def upt_rec)
qed

text \<open>C6, as stated, fails: the input \<open>-5\<close> sets the goal to -5, a negative value.\<close>

theorem goal_change_counterexample:
  "calorieGoal (handleGoalChange ''-5'' initial_state) = - 5"
  by (simp add: handleGoalChange_def parseInt10_def is_ws_def is_digit_def decimal_def digit_val_def)

text \<open>
  C6, amended. The goal is set to the integer that \<^verbatim>\<open>parseInt\<close> reads: the digits of a
  natural number \<open>n\<close> of at most \<open>2 ^ 53\<close> set it to \<open>n\<close>, a minus sign before them
  sets it to \<open>-n\<close>, and a text with no digit at all sets it to 0. The handler never fails
  and leaves the log as it is.
\<close>

theorem goal_change_parses:
  "(n \<le> 2 ^ 53 \<longrightarrow> calorieGoal (handleGoalChange (digits_of n) st) = int n) \<and>
   (n \<le> 2 ^ 53 \<longrightarrow> calorieGoal (handleGoalChange (CHR ''-'' # digits_of n) st) = - int n) \<and>
   ((\<forall>c\<in>set v. \<not> is_digit c) \<longrightarrow> calorieGoal (handleGoalChange v st) = 0) \<and>
   dailyLog (handleGoalChange v st) = dailyLog st"
  by (simp add: handleGoalChange_def parseInt10_digits_of parseInt10_minus_digits_of
      parseInt10_no_digit)

theorem goal_change_parses_witness:
  "calorieGoal (handleGoalChange ''1800'' initial_state) = 1800 \<and>
   calorieGoal (handleGoalChange ''-1800'' initial_state) = - 1800 \<and>
   calorieGoal (handleGoalChange ''abc'' initial_state) = 0"
proof -
  have d: "digits_of 1800 = ''1800''" by code_simp
  show ?thesis
    using goal_change_parses [of 1800 initial_state "''abc''"]
    by (simp add: d is_digit_def)
qed

text \<open>
  C7. When \<^verbatim>\<open>totals.calories\<close> is a number \<open>c\<close>, the dashboard shows a bar of
  \<open>min 100 (100 * c / calorieGoal)\<close> percent when the goal is positive and of 0 percent
  when it is not, and the bar is red exactly when \<open>c\<close> exceeds the goal. With a goal of
  2000 and 2500 calories the bar is at 100 percent and red.
\<close>

theorem progress_of_totals:
  assumes "computeTotals (dailyLog st) = Inr t" and "calories t = ANum c"
  shows "updateDashboard st =
           Inr \<lparr>shown = t,
                bar = Some (progressPercentage c (calorieGoal st), overGoal c (calorieGoal st))\<rparr> \<and>
         (0 < calorieGoal st \<longrightarrow>
            progressPercentage c (calorieGoal st) = min 100 (100 * c / of_int (calorieGoal st))) \<and>
         (calorieGoal st \<le> 0 \<longrightarrow> progressPercentage c (calorieGoal st) = 0) \<and>
         overGoal c (calorieGoal st) = (c > of_int (calorieGoal st))"
  using assms
  by (simp add: updateDashboard_def bind_error_def progressPercentage_def overGoal_def min.commute
      mult.commute)

theorem progress_of_totals_witness:
  "updateDashboard \<lparr>dailyLog = [feast], calorieGoal = 2000\<rparr> =
     Inr \<lparr>shown = \<lparr>calories = ANum 2500, protein = ANum 100, carbs = ANum 300, fat = ANum 90\<rparr>,
          bar = Some (100, True)\<rparr> \<and>
   updateDashboard \<lparr>dailyLog = [feast], calorieGoal = 0\<rparr> =
     Inr \<lparr>shown = \<lparr>calories = ANum 2500, protein = ANum 100, carbs = ANum 300, fat = ANum 90\<rparr>,
          bar = Some (0, True)\<rparr>"
proof -
  have t: "computeTotals [feast] =
      Inr \<lparr>calories = ANum 2500, protein = ANum 100, carbs = ANum 300, fat = ANum 90\<rparr>"
    by (simp add: computeTotals_def reduce_step_def summary_field_def bind_error_def feast_def
        breakdown_def)
  show ?thesis
    using progress_of_totals [of "\<lparr>dailyLog = [feast], calorieGoal = 2000\<rparr>"
        "\<lparr>calories = ANum 2500, protein = ANum 100, carbs = ANum 300, fat = ANum 90\<rparr>" 2500]
      progress_of_totals [of "\<lparr>dailyLog = [feast], calorieGoal = 0\<rparr>"
        "\<lparr>calories = ANum 2500, protein = ANum 100, carbs = ANum 300, fat = ANum 90\<rparr>" 2500]
    by (simp add: t)
qed

text \<open>
  C8, as stated, fails: clearing is not unconditional. When \<^verbatim>\<open>confirm\<close> answers no, the
  log keeps its meals.
\<close>

theorem clear_counterexample:
  "dailyLog (handleClearLog False (logged [eggs, toast])) = [eggs, toast]"
  by (simp add: handleClearLog_def logged_def)

text \<open>
  C8, amended. When \<^verbatim>\<open>confirm\<close> answers yes, clearing empties the log whatever it held
  and keeps the goal, and \<open>computeTotals\<close> then returns zero in all four fields; when it
  answers no, the state is unchanged. Neither case fails.
\<close>

theorem clear_when_confirmed:
  "dailyLog (handleClearLog True st) = [] \<and>
   calorieGoal (handleClearLog True st) = calorieGoal st \<and>
   computeTotals (dailyLog (handleClearLog True st)) =
     Inr \<lparr>calories = ANum 0, protein = ANum 0, carbs = ANum 0, fat = ANum 0\<rparr> \<and>
   handleClearLog False st = st"
  by (simp add: handleClearLog_def computeTotals_def)

theorem clear_when_confirmed_witness:
  "computeTotals (dailyLog (handleClearLog True (logged [eggs, toast]))) =
     Inr \<lparr>calories = ANum 0, protein = ANum 0, carbs = ANum 0, fat = ANum 0\<rparr>"
  using clear_when_confirmed [of "logged [eggs, toast]"] by blast

text \<open>
  C9. For meals whose summary fields are each a number or not truthy (absent, \<^verbatim>\<open>null\<close>,
  \<^verbatim>\<open>false\<close>, \<^verbatim>\<open>0\<close>, empty), \<open>computeTotals\<close> does not throw, every such field counts
  as 0, and each total is a number: the sum of the numeric fields.
\<close>

theorem incomplete_summary_counts_zero:
  assumes "\<forall>m\<in>set ms. numeric_or_missing m"
  shows "computeTotals ms = Inr (field_sums ms)"
  using assms by (rule computeTotals_sums)

theorem incomplete_summary_counts_zero_witness:
  "computeTotals [eggs, sparse] =
     Inr \<lparr>calories = ANum 142, protein = ANum 12, carbs = ANum 1, fat = ANum 10\<rparr>"
  using incomplete_summary_counts_zero [of "[eggs, sparse]"]
  by (simp add: numeric_or_missing_def summary_keys_def summary_field_def bind_error_def
      eggs_def sparse_def breakdown_def is_num_def field_sums_def contribution_def)

text \<open>
  C10, as stated, fails: an analysis whose \<^verbatim>\<open>meal_summary\<close> is present with the value
  \<^verbatim>\<open>null\<close>, beside a present \<^verbatim>\<open>food_items\<close>, is not appended.
\<close>

theorem log_meal_counterexample:
  "outcome (getNutritionalInfo (answering null_summary) ''2 eggs'') = Inr null_summary \<and>
   has_field null_summary ''meal_summary'' \<and> has_field null_summary ''food_items'' \<and>
   dailyLog (after (handleLogMeal (answering null_summary) ''2 eggs'' initial_state)) = []"
  by (simp add: handleLogMeal_def getNutritionalInfo_def retry_loop.simps parse_response_def
      extract_text_def bind_error_def answering_def world_of_def reply_def envelope_def
      null_summary_def has_field_def accepted_def member_truthy_def trim_def is_ws_def
      initial_state_def maxAttempts_def ok_def)

text \<open>
  C10, amended. The handler appends a meal (the trimmed description with the analysis)
  exactly when the description is not empty after trimming and the analysis call returns
  an object whose \<^verbatim>\<open>meal_summary\<close> and \<^verbatim>\<open>food_items\<close> are both present and truthy. In
  every other case (empty description, a thrown error, a field absent or not truthy) the
  log is unchanged; with an empty description no request is made. The goal is unchanged.
\<close>

theorem log_meal_appends_iff:
  "(trim input \<noteq> [] \<and> outcome (getNutritionalInfo w (trim input)) = Inr (JObj kvs) \<and>
      map_of kvs ''meal_summary'' = Some s \<and> truthy s \<and>
      map_of kvs ''food_items'' = Some f \<and> truthy f \<longrightarrow>
    dailyLog (after (handleLogMeal w input st)) =
      dailyLog st @ [\<lparr>description = trim input, analysis = JObj kvs\<rparr>]) \<and>
   (\<not> (trim input \<noteq> [] \<and>
        (\<exists>kvs s f. outcome (getNutritionalInfo w (trim input)) = Inr (JObj kvs) \<and>
           map_of kvs ''meal_summary'' = Some s \<and> truthy s \<and>
           map_of kvs ''food_items'' = Some f \<and> truthy f)) \<longrightarrow>
    dailyLog (after (handleLogMeal w input st)) = dailyLog st) \<and>
   (trim input = [] \<longrightarrow> requests (handleLogMeal w input st) = 0) \<and>
   calorieGoal (after (handleLogMeal w input st)) = calorieGoal st"
proof -
  have a: "dailyLog (after (handleLogMeal w input st)) =
      dailyLog st @ [\<lparr>description = trim input, analysis = JObj kvs\<rparr>]"
    if "trim input \<noteq> []" "outcome (getNutritionalInfo w (trim input)) = Inr (JObj kvs)"
      "map_of kvs ''meal_summary'' = Some s" "truthy s"
      "map_of kvs ''food_items'' = Some f" "truthy f"
  proof -
    have "accepted (JObj kvs)" unfolding accepted_iff using that by blast
    then show ?thesis using that(1,2) by (simp add: handleLogMeal_def Let_def)
  qed
  have b: "dailyLog (after (handleLogMeal w input st)) = dailyLog st"
    if "\<not> (trim input \<noteq> [] \<and>
        (\<exists>kvs s f. outcome (getNutritionalInfo w (trim input)) = Inr (JObj kvs) \<and>
           map_of kvs ''meal_summary'' = Some s \<and> truthy s \<and>
           map_of kvs ''food_items'' = Some f \<and> truthy f))"
    using handleLogMeal_log [of w input st] that unfolding accepted_iff by blast
  have c: "requests (handleLogMeal w input st) = 0" if "trim input = []"
    using that by (simp add: handleLogMeal_def)
  have d: "calorieGoal (after (handleLogMeal w input st)) = calorieGoal st"
    by (simp add: handleLogMeal_def Let_def split: sum.splits)
  from a b c d show ?thesis by blast
qed

theorem log_meal_appends_iff_witness:
  "dailyLog (after (handleLogMeal (answering (breakdown 140 12 1 10)) '' 2 eggs '' initial_state)) =
     [eggs] \<and>
   dailyLog (after (handleLogMeal (answering null_summary) ''2 eggs'' initial_state)) = [] \<and>
   dailyLog (after (handleLogMeal (world_of [reply 404 None] JNull) ''2 eggs'' initial_state)) = [] \<and>
   requests (handleLogMeal (answering (breakdown 140 12 1 10)) ''   '' initial_state) = 0"
proof -
  have t: "trim '' 2 eggs '' = ''2 eggs''" "trim ''2 eggs'' = ''2 eggs''" "trim ''   '' = []"
    by (simp_all add: trim_def is_ws_def)
  have n: "getNutritionalInfo (world_of [reply 404 None] JNull) ''2 eggs'' =
      \<lparr>outcome = Inl (ApiError [] 404), fetches = 1, delays = []\<rparr>"
    by (simp add: getNutritionalInfo_def retry_loop.simps world_of_def reply_def maxAttempts_def
        ok_def)
  show ?thesis
    using log_meal_appends_iff [of "'' 2 eggs ''" "answering (breakdown 140 12 1 10)"
        "[(''meal_summary'',
            JObj [(''total_calories'', JNum 140), (''total_protein_g'', JNum 12),
                  (''total_carbs_g'', JNum 1), (''total_fat_g'', JNum 10)]),
           (''food_items'', JArr [])]"
        "JObj [(''total_calories'', JNum 140), (''total_protein_g'', JNum 12),
                  (''total_carbs_g'', JNum 1), (''total_fat_g'', JNum 10)]"
        "JArr []" initial_state]
      log_meal_appends_iff [of "''2 eggs''" "answering null_summary" _ _ _ initial_state]
      log_meal_appends_iff [of "''2 eggs''" "world_of [reply 404 None] JNull" _ _ _ initial_state]
      log_meal_appends_iff [of "''   ''" "answering (breakdown 140 12 1 10)" _ _ _ initial_state]
    by (simp add: t n answering_returns null_summary_def breakdown_def eggs_def initial_state_def)
qed

end
